theory Spec2Isabelle
  imports Complex_Main
begin

section \<open>The collection route: carousel controller and page loader\<close>

text \<open>
  A shallow embedding of \<^verbatim>\<open>app/routes/collections.$handle.jsx\<close>. The module keeps
  four mutable globals (\<^verbatim>\<open>currentSlide\<close>, \<^verbatim>\<open>showLeftArrow\<close>, \<^verbatim>\<open>showRightArrow\<close>,
  \<^verbatim>\<open>scrollInterval\<close>) and reads and writes the browser: \<^verbatim>\<open>window.innerWidth\<close>, the
  element with id \<^verbatim>\<open>imageSlider\<close>, the two arrow buttons, and the interval timers. All of
  it is one record that every function takes and returns.
\<close>

subsection \<open>Values\<close>

text \<open>
  A JavaScript number is a double. Every number the carousel computes for the offset is a
  sum or difference of small integers and of \<^verbatim>\<open>children.length / 2\<close>, which doubles hold
  exactly, so numbers are modelled as rationals. The one inexact quantity is the
  percentage of the CSS transform (\<^verbatim>\<open>100 / 3\<close>), kept here as the exact quotient.
\<close>

type_synonym number = rat

record slider_el =
  children_length :: nat
  transform :: "number option"

text \<open>
  \<^verbatim>\<open>transform = Some p\<close> stands for the style string \<^verbatim>\<open>translateX(-p%)\<close>, and \<^verbatim>\<open>None\<close>
  for a style never written. An arrow button is present or not; when present the model
  keeps its \<^verbatim>\<open>style.display\<close>. The browser's table of running interval timers holds, for
  each handle, the direction its callback \<^verbatim>\<open>() => scrollSlider(direction)\<close> closes over.
\<close>

record world =
  currentSlide :: number
  showLeftArrow :: bool
  showRightArrow :: bool
  scrollInterval :: "nat option"
  innerWidth :: number
  imageSlider :: "slider_el option"
  prevButton :: "string option"
  nextButton :: "string option"
  intervals :: "(nat \<times> string) list"
  lastTimerId :: nat

subsection \<open>Browser timers\<close>

text \<open>
  \<^verbatim>\<open>setInterval\<close> returns a fresh handle greater than zero and registers the callback;
  \<^verbatim>\<open>clearInterval\<close> removes the timer with the given handle and ignores unknown handles.
\<close>

definition setInterval :: "string \<Rightarrow> world \<Rightarrow> nat \<times> world" where
  "setInterval direction w =
     (let h = Suc (lastTimerId w)
      in (h, w\<lparr>intervals := intervals w @ [(h, direction)], lastTimerId := h\<rparr>))"

definition clearInterval :: "nat \<Rightarrow> world \<Rightarrow> world" where
  "clearInterval h w = w\<lparr>intervals := filter (\<lambda>t. fst t \<noteq> h) (intervals w)\<rparr>"

text \<open>The test \<^verbatim>\<open>if (scrollInterval)\<close>: \<^verbatim>\<open>null\<close> and \<^verbatim>\<open>0\<close> are falsy.\<close>

fun truthy :: "nat option \<Rightarrow> bool" where
  "truthy None = False"
| "truthy (Some h) = (h \<noteq> 0)"

subsection \<open>Slider functions\<close>

definition getImagesPerRow :: "world \<Rightarrow> number" where
  "getImagesPerRow w =
     (let width = innerWidth w
      in if width \<ge> 1024 then 5
         else if width \<ge> 768 then 3
         else 1)"

definition updateSlider :: "world \<Rightarrow> world" where
  "updateSlider w =
     (case imageSlider w of
        None \<Rightarrow> w
      | Some slider \<Rightarrow>
          (let imagesPerRow = getImagesPerRow w;
               slidePercentage = (currentSlide w / imagesPerRow) * (100 / imagesPerRow)
           in w\<lparr>imageSlider := Some (slider\<lparr>transform := Some slidePercentage\<rparr>)\<rparr>))"

definition setDisplay :: "bool \<Rightarrow> string option \<Rightarrow> string option" where
  "setDisplay shown button =
     (case button of
        None \<Rightarrow> None
      | Some _ \<Rightarrow> Some (if shown then ''flex'' else ''none''))"

definition updateArrowVisibility :: "world \<Rightarrow> world" where
  "updateArrowVisibility w =
     (let imagesPerRow = getImagesPerRow w;
          originalImagesCount = 34;
          w1 = w\<lparr>showLeftArrow := currentSlide w > 0\<rparr>;
          w2 = w1\<lparr>showRightArrow := currentSlide w1 < originalImagesCount - imagesPerRow\<rparr>;
          w3 = w2\<lparr>prevButton := setDisplay (showLeftArrow w2) (prevButton w2)\<rparr>
      in w3\<lparr>nextButton := setDisplay (showRightArrow w3) (nextButton w3)\<rparr>)"

text \<open>
  The two branches of \<^verbatim>\<open>scrollSlider\<close> that compute the new \<^verbatim>\<open>currentSlide\<close>: any
  direction other than the string \<^verbatim>\<open>left\<close> takes the \<^verbatim>\<open>else\<close> branch.
\<close>

definition advance :: "string \<Rightarrow> number \<Rightarrow> number \<Rightarrow> number \<Rightarrow> number" where
  "advance direction originalImagesCount imagesPerRow current =
     (if direction = ''left'' then
        (let moved = current - imagesPerRow
         in if moved < 0 then originalImagesCount - imagesPerRow else moved)
      else
        (let moved = current + imagesPerRow
         in if moved \<ge> originalImagesCount then 0 else moved))"

definition scrollSlider :: "string \<Rightarrow> world \<Rightarrow> world" where
  "scrollSlider direction w =
     (case imageSlider w of
        None \<Rightarrow> w
      | Some slider \<Rightarrow>
          (let imagesPerRow = getImagesPerRow w;
               originalImagesCount = of_nat (children_length slider) / 2;
               w1 = w\<lparr>currentSlide :=
                        advance direction originalImagesCount imagesPerRow (currentSlide w)\<rparr>
           in updateArrowVisibility (updateSlider w1)))"

definition goToSlide :: "number \<Rightarrow> world \<Rightarrow> world" where
  "goToSlide index w =
     (let imagesPerRow = getImagesPerRow w;
          w1 = w\<lparr>currentSlide := index * imagesPerRow\<rparr>
      in updateArrowVisibility (updateSlider w1))"

definition startScrolling :: "string \<Rightarrow> world \<Rightarrow> world" where
  "startScrolling direction w =
     (let w1 = (case scrollInterval w of
                  None \<Rightarrow> w
                | Some h \<Rightarrow> if truthy (Some h) then clearInterval h w else w);
          (h', w2) = setInterval direction w1
      in w2\<lparr>scrollInterval := Some h'\<rparr>)"

definition stopScrolling :: "world \<Rightarrow> world" where
  "stopScrolling w =
     (case scrollInterval w of
        None \<Rightarrow> w
      | Some h \<Rightarrow>
          if truthy (Some h) then (clearInterval h w)\<lparr>scrollInterval := None\<rparr> else w)"

definition handleArrowClick :: "string \<Rightarrow> world \<Rightarrow> world" where
  "handleArrowClick direction w = startScrolling direction (scrollSlider direction w)"

text \<open>The listener registered for the window's \<^verbatim>\<open>resize\<close> event.\<close>

definition resizeListener :: "world \<Rightarrow> world" where
  "resizeListener w = updateArrowVisibility (updateSlider (w\<lparr>currentSlide := 0\<rparr>))"

subsection \<open>Module load and rendering\<close>

text \<open>
  The globals as the module initialises them, on the page the component renders for
  \<open>n\<close> images in a viewport of the given width: the slider holds every image twice, and
  slider and arrow buttons are rendered only when there is at least one image.
\<close>

definition initialWorld :: "number \<Rightarrow> nat \<Rightarrow> world" where
  "initialWorld width n =
     \<lparr>currentSlide = 0,
      showLeftArrow = False,
      showRightArrow = True,
      scrollInterval = None,
      innerWidth = width,
      imageSlider =
        (if n > 0 then Some \<lparr>children_length = n + n, transform = None\<rparr> else None),
      prevButton = (if n > 0 then Some [] else None),
      nextButton = (if n > 0 then Some [] else None),
      intervals = [],
      lastTimerId = 0\<rparr>"

subsection \<open>Events\<close>

text \<open>
  What can happen to the page after load: a call of one of the module's functions from an
  event handler, a resize of the window to a new width, or the passing of 400ms, when
  every running interval timer calls its callback.
\<close>

datatype event =
    StartScrolling string
  | StopScrolling
  | HandleArrowClick string
  | GoToSlide number
  | Resize number
  | IntervalsFire

definition fireIntervals :: "world \<Rightarrow> world" where
  "fireIntervals w = fold (\<lambda>t. scrollSlider (snd t)) (intervals w) w"

fun step :: "event \<Rightarrow> world \<Rightarrow> world" where
  "step (StartScrolling direction) w = startScrolling direction w"
| "step StopScrolling w = stopScrolling w"
| "step (HandleArrowClick direction) w = handleArrowClick direction w"
| "step (GoToSlide index) w = goToSlide index w"
| "step (Resize width) w = resizeListener (w\<lparr>innerWidth := width\<rparr>)"
| "step IntervalsFire w = fireIntervals w"

definition run :: "event list \<Rightarrow> world \<Rightarrow> world" where
  "run evs w = fold step evs w"

text \<open>
  The timer discipline: the browser runs no timer of the carousel when \<^verbatim>\<open>scrollInterval\<close>
  is \<^verbatim>\<open>null\<close>, and exactly the one whose handle \<^verbatim>\<open>scrollInterval\<close> holds otherwise.
\<close>

definition oneTimer :: "world \<Rightarrow> bool" where
  "oneTimer w =
     (case scrollInterval w of
        None \<Rightarrow> intervals w = []
      | Some h \<Rightarrow> h \<noteq> 0 \<and> h \<le> lastTimerId w \<and> map fst (intervals w) = [h])"



subsection \<open>The loader\<close>

text \<open>
  A value thrown out of the loader: the response of \<^verbatim>\<open>redirect(url)\<close>, a response with a
  body and a status, or the rejection of the storefront query.
\<close>

datatype thrown = Redirect string | Response string nat | Rejected string

text \<open>The fields the collection query selects, without the page of products.\<close>

record collection =
  coll_id :: string
  coll_handle :: string
  coll_title :: string
  coll_description :: string

record loader_data =
  collection :: collection

text \<open>
  The loader's collaborators are parameters: \<^verbatim>\<open>getPaginationVariables\<close> of the framework,
  applied to the request and the page size; \<^verbatim>\<open>storefront.query\<close> with the collection
  query, which resolves to a collection or \<^verbatim>\<open>null\<close>, or rejects; and
  \<^verbatim>\<open>redirectIfHandleIsLocalized\<close>, imported from \<^verbatim>\<open>~/lib/redirect\<close>, whose result the
  loader drops, so that all it can do to the loader is throw (\<open>Some\<close>) or return
  (\<open>None\<close>). The test \<^verbatim>\<open>!handle\<close> holds of a missing and of an empty handle.
\<close>

definition loadCriticalData ::
  "('r \<Rightarrow> nat \<Rightarrow> 'p) \<Rightarrow> ('r \<Rightarrow> string \<Rightarrow> collection \<Rightarrow> thrown option) \<Rightarrow>
   (string \<Rightarrow> 'p \<Rightarrow> thrown + collection option) \<Rightarrow> string option \<Rightarrow> 'r \<Rightarrow>
   thrown + loader_data" where
  "loadCriticalData getPaginationVariables redirectIfHandleIsLocalized query handle request =
     (let paginationVariables = getPaginationVariables request 8
      in case handle of
           None \<Rightarrow> Inl (Redirect ''/collections'')
         | Some h \<Rightarrow>
             if h = [] then Inl (Redirect ''/collections'')
             else
               (case query h paginationVariables of
                  Inl e \<Rightarrow> Inl e
                | Inr None \<Rightarrow> Inl (Response (''Collection '' @ h @ '' not found'') 404)
                | Inr (Some c) \<Rightarrow>
                    (case redirectIfHandleIsLocalized request h c of
                       Some e \<Rightarrow> Inl e
                     | None \<Rightarrow> Inr \<lparr>collection = c\<rparr>)))"

definition loadDeferredData :: "unit" where
  "loadDeferredData = ()"

text \<open>The deferred data is the empty object, so the merged result is the critical data.\<close>

definition loader ::
  "('r \<Rightarrow> nat \<Rightarrow> 'p) \<Rightarrow> ('r \<Rightarrow> string \<Rightarrow> collection \<Rightarrow> thrown option) \<Rightarrow>
   (string \<Rightarrow> 'p \<Rightarrow> thrown + collection option) \<Rightarrow> string option \<Rightarrow> 'r \<Rightarrow>
   thrown + loader_data" where
  "loader getPaginationVariables redirectIfHandleIsLocalized query handle request =
     (let deferredData = loadDeferredData
      in case loadCriticalData getPaginationVariables redirectIfHandleIsLocalized query
                handle request of
           Inl e \<Rightarrow> Inl e
         | Inr criticalData \<Rightarrow> Inr criticalData)"

text \<open>
  Sample collaborators for concrete runs. The request is its URL path and the pagination
  variables are the page size. The store has one collection, found under the handle
  \<^verbatim>\<open>shirts\<close> and under its French form \<^verbatim>\<open>chemises\<close>, which is the handle the API returns.
  The helper does what the comment at its call says, a redirect to the localized handle:
  it throws when the handle asked for is not the handle of the collection returned.
\<close>

definition samplePagination :: "string \<Rightarrow> nat \<Rightarrow> nat" where
  "samplePagination request pageBy = pageBy"

definition sampleCollection :: collection where
  "sampleCollection =
     \<lparr>coll_id = ''gid://shopify/Collection/1'', coll_handle = ''chemises'',
      coll_title = ''Chemises'', coll_description = []\<rparr>"

definition sampleQuery :: "string \<Rightarrow> nat \<Rightarrow> thrown + collection option" where
  "sampleQuery h paginationVariables =
     (if h = ''shirts'' \<or> h = ''chemises'' then Inr (Some sampleCollection) else Inr None)"

definition sampleRedirectIfLocalized :: "string \<Rightarrow> string \<Rightarrow> collection \<Rightarrow> thrown option" where
  "sampleRedirectIfLocalized request h c =
     (if h \<noteq> coll_handle c then Some (Redirect (''/collections/'' @ coll_handle c)) else None)"

section \<open>Properties\<close>

subsection \<open>Frame lemmas\<close>

lemma getImagesPerRow_cases:
  "getImagesPerRow w = 1 \<or> getImagesPerRow w = 3 \<or> getImagesPerRow w = 5"
  by (simp add: getImagesPerRow_def Let_def)

lemma currentSlide_updateSlider [simp]: "currentSlide (updateSlider w) = currentSlide w"
  by (simp add: updateSlider_def Let_def split: option.splits)

lemma innerWidth_updateSlider [simp]: "innerWidth (updateSlider w) = innerWidth w"
  by (simp add: updateSlider_def Let_def split: option.splits)

lemma getImagesPerRow_updateSlider [simp]:
  "getImagesPerRow (updateSlider w) = getImagesPerRow w"
  by (simp add: getImagesPerRow_def)

lemma currentSlide_updateArrowVisibility [simp]:
  "currentSlide (updateArrowVisibility w) = currentSlide w"
  by (simp add: updateArrowVisibility_def Let_def)

lemma currentSlide_scrollSlider:
  "imageSlider w = Some slider \<Longrightarrow>
   currentSlide (scrollSlider direction w) =
     advance direction (of_nat (children_length slider) / 2) (getImagesPerRow w) (currentSlide w)"
  by (simp add: scrollSlider_def Let_def)

lemma innerWidth_updateArrowVisibility [simp]:
  "innerWidth (updateArrowVisibility w) = innerWidth w"
  by (simp add: updateArrowVisibility_def Let_def)

lemma imageSlider_updateArrowVisibility [simp]:
  "imageSlider (updateArrowVisibility w) = imageSlider w"
  by (simp add: updateArrowVisibility_def Let_def)

lemma innerWidth_scrollSlider [simp]: "innerWidth (scrollSlider direction w) = innerWidth w"
  by (simp add: scrollSlider_def Let_def split: option.splits)

lemma getImagesPerRow_scrollSlider [simp]:
  "getImagesPerRow (scrollSlider direction w) = getImagesPerRow w"
  by (simp add: getImagesPerRow_def)


lemma currentSlide_startScrolling [simp]:
  "currentSlide (startScrolling direction w) = currentSlide w"
  by (simp add: startScrolling_def setInterval_def clearInterval_def Let_def
      split: option.splits)

lemma currentSlide_stopScrolling [simp]: "currentSlide (stopScrolling w) = currentSlide w"
  by (simp add: stopScrolling_def clearInterval_def split: option.splits)

lemma currentSlide_resizeListener: "currentSlide (resizeListener w) = 0"
  by (simp add: resizeListener_def)

lemma currentSlide_goToSlide:
  "currentSlide (goToSlide index w) = index * getImagesPerRow w"
  by (simp add: goToSlide_def Let_def)

subsection \<open>Moving the offset\<close>

lemma advance_left: "advance ''left'' N k c = (if c - k < 0 then N - k else c - k)"
  by (simp add: advance_def Let_def)

lemma advance_other:
  "d \<noteq> ''left'' \<Longrightarrow> advance d N k c = (if c + k \<ge> N then 0 else c + k)"
  by (simp add: advance_def Let_def)

lemma advance_right: "advance ''right'' N k c = (if c + k \<ge> N then 0 else c + k)"
  by (simp add: advance_other)

text \<open>
  C1. With \<open>N\<close> images in the slider (half of its children), \<open>k\<close> images per row and the
  offset at \<open>c\<close>, scrolling left moves the offset to \<open>c - k\<close>, or to \<open>N - k\<close> when
  \<open>c - k\<close> is negative; scrolling right moves it to \<open>c + k\<close>, or to 0 when \<open>c + k\<close>
  reaches \<open>N\<close> or more.
\<close>

theorem scrollSlider_offset:
  assumes "imageSlider w = Some slider"
    and "of_nat (children_length slider) / 2 = N"
    and "getImagesPerRow w = k"
    and "currentSlide w = c"
  shows "k \<in> {1, 3, 5}
    \<and> currentSlide (scrollSlider ''left'' w) = (if c - k < 0 then N - k else c - k)
    \<and> currentSlide (scrollSlider ''right'' w) = (if c + k \<ge> N then 0 else c + k)"
proof -
  have "k \<in> {1, 3, 5}"
    using getImagesPerRow_cases [of w] assms(3) by auto
  moreover have "currentSlide (scrollSlider ''left'' w) = advance ''left'' N k c"
    using assms by (simp add: currentSlide_scrollSlider)
  moreover have "currentSlide (scrollSlider ''right'' w) = advance ''right'' N k c"
    using assms by (simp add: currentSlide_scrollSlider)
  ultimately show ?thesis
    by (simp add: advance_left advance_right)
qed

theorem scrollSlider_offset_witness:
  "currentSlide (scrollSlider ''left'' (initialWorld 1280 34)) = 29
   \<and> currentSlide (scrollSlider ''right'' (initialWorld 1280 34)) = 5"
  using scrollSlider_offset [of "initialWorld 1280 34"
      "\<lparr>children_length = 68, transform = None\<rparr>" 34 5 0]
  by (simp add: initialWorld_def getImagesPerRow_def)

text \<open>
  C3. In a viewport at least 1024 wide (5 images per row) over a slider of 34 images,
  scrolling left from offset 0 wraps to offset 29, which is 34 - 5, and scrolling right
  from offset 30 wraps to offset 0, since 35 is at least 34.
\<close>

theorem scenario_34_by_5:
  assumes "imageSlider w = Some slider"
    and "children_length slider = 68"
    and "innerWidth w \<ge> 1024"
  shows "(currentSlide w = 0 \<longrightarrow> currentSlide (scrollSlider ''left'' w) = 29)
    \<and> (currentSlide w = 30 \<longrightarrow> currentSlide (scrollSlider ''right'' w) = 0)"
proof -
  have k: "getImagesPerRow w = 5"
    using assms(3) by (simp add: getImagesPerRow_def)
  have N: "of_nat (children_length slider) / 2 = (34 :: rat)"
    using assms(2) by simp
  show ?thesis
    using assms(1) k N by (simp add: currentSlide_scrollSlider advance_left advance_right)
qed

theorem scenario_34_by_5_witness:
  "currentSlide (scrollSlider ''left'' (initialWorld 1280 34)) = 29
   \<and> currentSlide (scrollSlider ''right'' ((initialWorld 1280 34)\<lparr>currentSlide := 30\<rparr>)) = 0"
  using scenario_34_by_5 [of "initialWorld 1280 34"
      "\<lparr>children_length = 68, transform = None\<rparr>"]
    scenario_34_by_5 [of "(initialWorld 1280 34)\<lparr>currentSlide := 30\<rparr>"
      "\<lparr>children_length = 68, transform = None\<rparr>"]
  by (simp add: initialWorld_def)

theorem scenario_34_by_5_left_counterexample:
  "currentSlide (scrollSlider ''left'' (initialWorld 1280 34)) \<noteq> 30"
  by (simp add: initialWorld_def getImagesPerRow_def currentSlide_scrollSlider advance_left)

text \<open>
  C2. On a slider of \<open>N\<close> images with \<open>k\<close> images per row and the offset within
  \<open>[0, N)\<close>: scrolling in any direction other than left leaves the offset within
  \<open>[0, N)\<close>; scrolling left leaves it there exactly when \<open>k\<close> is at most \<open>N\<close>; an arrow
  click moves it as scrolling does; the resize listener sets it to 0; starting and
  stopping the timer leave it alone; and \<^verbatim>\<open>goToSlide\<close> sets it to \<open>index * k\<close> with no
  wrapping, so that it stays within \<open>[0, N)\<close> exactly when \<open>index * k\<close> lies there.
\<close>

theorem offset_stays_in_range:
  assumes "imageSlider w = Some slider"
    and "of_nat (children_length slider) / 2 = N"
    and "getImagesPerRow w = k"
    and "0 \<le> currentSlide w"
    and "currentSlide w < N"
  shows "(d \<noteq> ''left'' \<longrightarrow>
        0 \<le> currentSlide (scrollSlider d w) \<and> currentSlide (scrollSlider d w) < N)
    \<and> ((0 \<le> currentSlide (scrollSlider ''left'' w)
          \<and> currentSlide (scrollSlider ''left'' w) < N) = (k \<le> N))
    \<and> currentSlide (handleArrowClick d w) = currentSlide (scrollSlider d w)
    \<and> currentSlide (resizeListener w) = 0 \<and> 0 < N
    \<and> currentSlide (startScrolling d w) = currentSlide w
    \<and> currentSlide (stopScrolling w) = currentSlide w
    \<and> currentSlide (goToSlide i w) = i * k
    \<and> ((0 \<le> currentSlide (goToSlide i w) \<and> currentSlide (goToSlide i w) < N)
         = (0 \<le> i * k \<and> i * k < N))"
proof -
  have kpos: "0 < k"
    using getImagesPerRow_cases [of w] assms(3) by auto
  have adv: "currentSlide (scrollSlider d' w) = advance d' N k (currentSlide w)" for d'
    using assms(1,2,3) by (simp add: currentSlide_scrollSlider)
  have other: "d \<noteq> ''left'' \<longrightarrow>
      0 \<le> advance d N k (currentSlide w) \<and> advance d N k (currentSlide w) < N"
    using kpos assms(4,5) by (simp add: advance_other)
  have left: "(0 \<le> advance ''left'' N k (currentSlide w)
      \<and> advance ''left'' N k (currentSlide w) < N) = (k \<le> N)"
    using kpos assms(4,5) by (auto simp add: advance_left)
  have "0 < N"
    using assms(4,5) by simp
  then show ?thesis
    using adv other left assms(3)
    by (simp add: handleArrowClick_def currentSlide_resizeListener currentSlide_goToSlide)
qed

theorem offset_stays_in_range_witness:
  "0 \<le> currentSlide (scrollSlider ''right'' (initialWorld 1280 3))
   \<and> currentSlide (scrollSlider ''right'' (initialWorld 1280 3)) < 3
   \<and> 0 \<le> currentSlide (scrollSlider ''left'' (initialWorld 1280 34))
   \<and> currentSlide (scrollSlider ''left'' (initialWorld 1280 34)) < 34"
  using offset_stays_in_range [of "initialWorld 1280 3"
      "\<lparr>children_length = 6, transform = None\<rparr>" 3 5 "''right''" 0]
    offset_stays_in_range [of "initialWorld 1280 34"
      "\<lparr>children_length = 68, transform = None\<rparr>" 34 5 "''left''" 6]
  by (simp add: initialWorld_def getImagesPerRow_def)

theorem offset_leaves_range_counterexample:
  "\<not> 0 \<le> currentSlide (scrollSlider ''left'' (initialWorld 1280 3))"
  by (simp add: initialWorld_def getImagesPerRow_def currentSlide_scrollSlider advance_left)

subsection \<open>Right, then left\<close>




lemma children_updateSlider [simp]:
  "map_option children_length (imageSlider (updateSlider w))
     = map_option children_length (imageSlider w)"
  by (simp add: updateSlider_def Let_def split: option.splits)

lemma page_startScrolling [simp]:
  "imageSlider (startScrolling d w) = imageSlider w"
  "innerWidth (startScrolling d w) = innerWidth w"
  by (simp_all add: startScrolling_def setInterval_def clearInterval_def Let_def
      split: option.splits)

lemma page_stopScrolling [simp]:
  "imageSlider (stopScrolling w) = imageSlider w"
  "innerWidth (stopScrolling w) = innerWidth w"
  by (simp_all add: stopScrolling_def clearInterval_def split: option.splits)











subsection \<open>The timer\<close>

lemma timers_updateSlider [simp]:
  "scrollInterval (updateSlider w) = scrollInterval w"
  "intervals (updateSlider w) = intervals w"
  "lastTimerId (updateSlider w) = lastTimerId w"
  by (simp_all add: updateSlider_def Let_def split: option.splits)

lemma timers_updateArrowVisibility [simp]:
  "scrollInterval (updateArrowVisibility w) = scrollInterval w"
  "intervals (updateArrowVisibility w) = intervals w"
  "lastTimerId (updateArrowVisibility w) = lastTimerId w"
  by (simp_all add: updateArrowVisibility_def Let_def)

lemma timers_scrollSlider [simp]:
  "scrollInterval (scrollSlider d w) = scrollInterval w"
  "intervals (scrollSlider d w) = intervals w"
  "lastTimerId (scrollSlider d w) = lastTimerId w"
  by (simp_all add: scrollSlider_def Let_def split: option.splits)

lemma oneTimer_same_timers:
  assumes "scrollInterval w' = scrollInterval w"
    and "intervals w' = intervals w"
    and "lastTimerId w' = lastTimerId w"
  shows "oneTimer w' = oneTimer w"
  using assms by (simp add: oneTimer_def split: option.splits)

lemma oneTimer_scrollSlider [simp]: "oneTimer (scrollSlider d w) = oneTimer w"
  by (rule oneTimer_same_timers) simp_all

lemma oneTimer_goToSlide [simp]: "oneTimer (goToSlide i w) = oneTimer w"
  by (rule oneTimer_same_timers) (simp_all add: goToSlide_def Let_def)

lemma oneTimer_resize [simp]:
  "oneTimer (resizeListener (w\<lparr>innerWidth := width\<rparr>)) = oneTimer w"
  by (rule oneTimer_same_timers) (simp_all add: resizeListener_def)

lemma oneTimer_fold_scrollSlider:
  "oneTimer (fold (\<lambda>t. scrollSlider (snd t)) ts w) = oneTimer w"
  by (induction ts arbitrary: w) simp_all

lemma filter_single_handle:
  "map fst ts = [h] \<Longrightarrow> filter (\<lambda>t. fst t \<noteq> h) ts = []"
  by (cases ts) auto

lemma startScrolling_after_oneTimer:
  assumes "oneTimer w"
  shows "scrollInterval (startScrolling d w) = Some (Suc (lastTimerId w))"
    and "intervals (startScrolling d w) = [(Suc (lastTimerId w), d)]"
    and "lastTimerId (startScrolling d w) = Suc (lastTimerId w)"
  using assms
  by (auto simp add: oneTimer_def startScrolling_def setInterval_def clearInterval_def Let_def
      filter_single_handle split: option.splits)

lemma oneTimer_startScrolling: "oneTimer w \<Longrightarrow> oneTimer (startScrolling d w)"
  by (simp add: oneTimer_def startScrolling_after_oneTimer)

lemma stopScrolling_after_oneTimer:
  assumes "oneTimer w"
  shows "scrollInterval (stopScrolling w) = None"
    and "intervals (stopScrolling w) = []"
  using assms
  by (auto simp add: oneTimer_def stopScrolling_def clearInterval_def filter_single_handle
      split: option.splits)

lemma oneTimer_stopScrolling: "oneTimer w \<Longrightarrow> oneTimer (stopScrolling w)"
  by (simp add: oneTimer_def stopScrolling_after_oneTimer)

lemma oneTimer_step: "oneTimer w \<Longrightarrow> oneTimer (step ev w)"
  by (cases ev)
    (simp_all add: oneTimer_startScrolling oneTimer_stopScrolling handleArrowClick_def
      fireIntervals_def oneTimer_fold_scrollSlider)

lemma oneTimer_run: "oneTimer w \<Longrightarrow> oneTimer (run evs w)"
  unfolding run_def by (induction evs arbitrary: w) (simp_all add: oneTimer_step)

lemma oneTimer_length: "oneTimer w \<Longrightarrow> length (intervals w) \<le> 1"
  by (auto simp add: oneTimer_def split: option.splits dest: arg_cong [where f = length])

text \<open>
  C7. From a page with no timer running, after any sequence of events at most one timer
  is running. Starting while a timer runs clears that timer first: its handle is gone
  from the browser's table and a single timer is left. After two starts in a row the one
  running timer scrolls in the direction of the second start, and a single stop leaves no
  timer running.
\<close>

theorem at_most_one_timer:
  assumes "scrollInterval w0 = None" and "intervals w0 = []"
  shows "length (intervals (run evs w0)) \<le> 1
    \<and> (\<forall>h. scrollInterval (run evs w0) = Some h \<longrightarrow>
          h \<notin> fst ` set (intervals (startScrolling d (run evs w0))))
    \<and> length (intervals (startScrolling d (run evs w0))) = 1
    \<and> map snd (intervals (startScrolling d' (startScrolling d (run evs w0)))) = [d']
    \<and> scrollInterval (stopScrolling (startScrolling d' (startScrolling d (run evs w0)))) = None
    \<and> intervals (stopScrolling (startScrolling d' (startScrolling d (run evs w0)))) = []"
proof -
  let ?w = "run evs w0"
  have "oneTimer w0"
    using assms by (simp add: oneTimer_def)
  then have inv: "oneTimer ?w"
    by (rule oneTimer_run)
  then have inv1: "oneTimer (startScrolling d ?w)"
    by (rule oneTimer_startScrolling)
  then have inv2: "oneTimer (startScrolling d' (startScrolling d ?w))"
    by (rule oneTimer_startScrolling)
  have "length (intervals ?w) \<le> 1"
    using inv by (rule oneTimer_length)
  moreover have "\<forall>h. scrollInterval ?w = Some h \<longrightarrow>
      h \<notin> fst ` set (intervals (startScrolling d ?w))"
    using inv by (auto simp add: startScrolling_after_oneTimer oneTimer_def)
  moreover have "length (intervals (startScrolling d ?w)) = 1"
    using inv by (simp add: startScrolling_after_oneTimer)
  moreover have "map snd (intervals (startScrolling d' (startScrolling d ?w))) = [d']"
    using inv1 by (simp add: startScrolling_after_oneTimer)
  moreover have "scrollInterval (stopScrolling (startScrolling d' (startScrolling d ?w))) = None"
    using inv2 by (rule stopScrolling_after_oneTimer)
  moreover have "intervals (stopScrolling (startScrolling d' (startScrolling d ?w))) = []"
    using inv2 by (rule stopScrolling_after_oneTimer)
  ultimately show ?thesis
    by blast
qed

lemma initialWorld_timers:
  "scrollInterval (initialWorld width n) = None" "intervals (initialWorld width n) = []"
  by (simp_all add: initialWorld_def)

theorem at_most_one_timer_witness:
  "length (intervals (run [HandleArrowClick ''right'', IntervalsFire, StartScrolling ''left'']
      (initialWorld 1280 34))) \<le> 1
   \<and> intervals (stopScrolling (startScrolling ''right'' (startScrolling ''left''
        (run [HandleArrowClick ''right'', IntervalsFire, StartScrolling ''left'']
          (initialWorld 1280 34))))) = []"
  using at_most_one_timer [OF initialWorld_timers,
      of "[HandleArrowClick ''right'', IntervalsFire, StartScrolling ''left'']" 1280 34
        "''left''" "''right''"]
  by blast

text \<open>
  C8. When \<^verbatim>\<open>scrollInterval\<close> holds a handle, \<^verbatim>\<open>stopScrolling\<close> clears the timer with that
  handle and sets \<^verbatim>\<open>scrollInterval\<close> to \<^verbatim>\<open>null\<close>, changing nothing else; under the timer
  discipline no timer is left running. When \<^verbatim>\<open>scrollInterval\<close> is \<^verbatim>\<open>null\<close> (or falsy) it
  returns the state as it found it. It has no failing branch.
\<close>

theorem stopScrolling_cancels_or_noop:
  "(scrollInterval w = Some h \<and> h \<noteq> 0 \<longrightarrow>
      scrollInterval (stopScrolling w) = None
      \<and> h \<notin> fst ` set (intervals (stopScrolling w))
      \<and> stopScrolling w =
          w\<lparr>intervals := filter (\<lambda>t. fst t \<noteq> h) (intervals w), scrollInterval := None\<rparr>)
   \<and> (\<not> truthy (scrollInterval w) \<longrightarrow> stopScrolling w = w)
   \<and> (oneTimer w \<longrightarrow>
        scrollInterval (stopScrolling w) = None \<and> intervals (stopScrolling w) = [])"
proof -
  have "scrollInterval w = Some h \<and> h \<noteq> 0 \<longrightarrow>
      scrollInterval (stopScrolling w) = None
      \<and> h \<notin> fst ` set (intervals (stopScrolling w))
      \<and> stopScrolling w =
          w\<lparr>intervals := filter (\<lambda>t. fst t \<noteq> h) (intervals w), scrollInterval := None\<rparr>"
    by (auto simp add: stopScrolling_def clearInterval_def)
  moreover have "\<not> truthy (scrollInterval w) \<longrightarrow> stopScrolling w = w"
    by (cases "scrollInterval w") (simp_all add: stopScrolling_def)
  moreover have "oneTimer w \<longrightarrow>
      scrollInterval (stopScrolling w) = None \<and> intervals (stopScrolling w) = []"
    by (simp add: stopScrolling_after_oneTimer)
  ultimately show ?thesis
    by blast
qed

theorem stopScrolling_cancels_or_noop_witness:
  "scrollInterval (stopScrolling (startScrolling ''left'' (initialWorld 1280 34))) = None
   \<and> intervals (stopScrolling (startScrolling ''left'' (initialWorld 1280 34))) = []
   \<and> stopScrolling (initialWorld 1280 34) = initialWorld 1280 34"
  using stopScrolling_cancels_or_noop [of "startScrolling ''left'' (initialWorld 1280 34)" 1]
    stopScrolling_cancels_or_noop [of "initialWorld 1280 34" 1]
  by (simp add: initialWorld_def startScrolling_def setInterval_def oneTimer_def)

subsection \<open>Breakpoints\<close>

text \<open>
  C4. The number of images per row is 5 for a viewport at least 1024 wide, 3 for a
  viewport at least 768 and less than 1024 wide, and 1 below that. It is therefore always
  one of 1, 3 and 5, and a wider viewport never shows fewer images per row.
\<close>

theorem getImagesPerRow_breakpoints:
  "getImagesPerRow w =
     (if innerWidth w \<ge> 1024 then 5 else if innerWidth w \<ge> 768 then 3 else 1)
   \<and> getImagesPerRow w \<in> {1, 3, 5}
   \<and> (innerWidth w \<le> innerWidth w' \<longrightarrow> getImagesPerRow w \<le> getImagesPerRow w')"
  by (simp add: getImagesPerRow_def Let_def)

theorem getImagesPerRow_breakpoints_witness:
  "getImagesPerRow (initialWorld 800 34) = 3
   \<and> getImagesPerRow (initialWorld 800 34) \<le> getImagesPerRow (initialWorld 1280 34)"
  using getImagesPerRow_breakpoints [of "initialWorld 800 34" "initialWorld 1280 34"]
  by (simp add: initialWorld_def)

subsection \<open>Arrows\<close>

lemma updateArrowVisibility_flags:
  "showLeftArrow (updateArrowVisibility w) = (currentSlide w > 0)"
  "showRightArrow (updateArrowVisibility w) = (currentSlide w < 34 - getImagesPerRow w)"
  "prevButton (updateArrowVisibility w) = setDisplay (currentSlide w > 0) (prevButton w)"
  "nextButton (updateArrowVisibility w)
     = setDisplay (currentSlide w < 34 - getImagesPerRow w) (nextButton w)"
  by (simp_all add: updateArrowVisibility_def Let_def)

text \<open>
  C6. The arrows after one scroll to the right on a page of 10 images in a viewport 1280
  wide, 5 images per row: the offset is 5, which is 10 - 5, the last row, and the right
  arrow is still shown, because \<^verbatim>\<open>updateArrowVisibility\<close> compares the offset with
  34 - 5 whatever the number of images in the slider.
\<close>

theorem arrows_on_ten_images:
  "currentSlide (scrollSlider ''right'' (initialWorld 1280 10)) = 5
   \<and> showLeftArrow (scrollSlider ''right'' (initialWorld 1280 10)) = True
   \<and> showRightArrow (scrollSlider ''right'' (initialWorld 1280 10)) = True
   \<and> nextButton (scrollSlider ''right'' (initialWorld 1280 10)) = Some ''flex''"
  by (simp add: scrollSlider_def initialWorld_def updateArrowVisibility_flags Let_def
      advance_right getImagesPerRow_def updateSlider_def setDisplay_def)

subsection \<open>Resize\<close>

text \<open>
  C10. Whatever the state and the new width, the resize listener leaves the offset at 0,
  with the slider's transform at 0 percent, the left arrow hidden and the right arrow
  shown, and does not touch the timer.
\<close>

theorem resize_resets_offset:
  "currentSlide (resizeListener w) = 0
   \<and> currentSlide (step (Resize width) w) = 0
   \<and> map_option transform (imageSlider (resizeListener w))
       = map_option (\<lambda>slider. Some 0) (imageSlider w)
   \<and> showLeftArrow (resizeListener w) = False
   \<and> showRightArrow (resizeListener w) = True
   \<and> scrollInterval (resizeListener w) = scrollInterval w
   \<and> intervals (resizeListener w) = intervals w"
proof -
  have "(0 :: rat) < 34 - getImagesPerRow (updateSlider (w\<lparr>currentSlide := 0\<rparr>))"
    using getImagesPerRow_cases [of "updateSlider (w\<lparr>currentSlide := 0\<rparr>)"] by auto
  moreover have "map_option transform (imageSlider (updateSlider (w\<lparr>currentSlide := 0\<rparr>)))
      = map_option (\<lambda>slider. Some 0) (imageSlider w)"
    by (simp add: updateSlider_def Let_def split: option.splits)
  ultimately show ?thesis
    by (simp add: resizeListener_def updateArrowVisibility_flags)
qed

theorem resize_resets_offset_witness:
  "currentSlide (step (Resize 800) (scrollSlider ''right'' (initialWorld 1280 34))) = 0
   \<and> currentSlide (scrollSlider ''right'' (initialWorld 1280 34)) = 5"
  using resize_resets_offset [of "scrollSlider ''right'' (initialWorld 1280 34)" 800]
  by (simp add: initialWorld_def getImagesPerRow_def currentSlide_scrollSlider advance_right)

subsection \<open>The loader\<close>

text \<open>
  C9. Without a handle in the route (missing or empty) the loader throws a redirect to
  \<^verbatim>\<open>/collections\<close>. With a handle for which the query resolves to no collection it throws
  a response with status 404. With a handle for which the query resolves to a collection
  it calls \<^verbatim>\<open>redirectIfHandleIsLocalized\<close>: when that returns, the loader returns the
  collection, and when that throws, the loader throws the same.
\<close>

theorem loader_outcomes:
  "(handle = None \<or> handle = Some [] \<longrightarrow>
      loader gpv rih query handle request = Inl (Redirect ''/collections''))
   \<and> (handle = Some h \<and> h \<noteq> [] \<and> query h (gpv request 8) = Inr None \<longrightarrow>
        loader gpv rih query handle request
          = Inl (Response (''Collection '' @ h @ '' not found'') 404))
   \<and> (handle = Some h \<and> h \<noteq> [] \<and> query h (gpv request 8) = Inr (Some c) \<longrightarrow>
        loader gpv rih query handle request
          = (case rih request h c of None \<Rightarrow> Inr \<lparr>collection = c\<rparr> | Some e \<Rightarrow> Inl e))"
  by (auto simp add: loader_def loadCriticalData_def Let_def split: option.splits)

theorem loader_outcomes_witness:
  "loader samplePagination sampleRedirectIfLocalized sampleQuery None ''/collections''
     = Inl (Redirect ''/collections'')
   \<and> loader samplePagination sampleRedirectIfLocalized sampleQuery (Some ''hats'')
       ''/collections/hats'' = Inl (Response ''Collection hats not found'' 404)
   \<and> loader samplePagination sampleRedirectIfLocalized sampleQuery (Some ''chemises'')
       ''/collections/chemises'' = Inr \<lparr>collection = sampleCollection\<rparr>"
  using loader_outcomes [of None samplePagination sampleRedirectIfLocalized sampleQuery
      "''/collections''"]
    loader_outcomes [of "Some ''hats''" samplePagination sampleRedirectIfLocalized sampleQuery
      "''/collections/hats''" "''hats''"]
    loader_outcomes [of "Some ''chemises''" samplePagination sampleRedirectIfLocalized
      sampleQuery "''/collections/chemises''" "''chemises''" sampleCollection]
  by (simp add: sampleQuery_def samplePagination_def sampleRedirectIfLocalized_def
      sampleCollection_def)

theorem loader_localized_counterexample:
  "sampleQuery ''shirts'' (samplePagination ''/collections/shirts'' 8)
     = Inr (Some sampleCollection)
   \<and> loader samplePagination sampleRedirectIfLocalized sampleQuery (Some ''shirts'')
       ''/collections/shirts'' \<noteq> Inr \<lparr>collection = sampleCollection\<rparr>
   \<and> loader samplePagination sampleRedirectIfLocalized sampleQuery (Some ''shirts'')
       ''/collections/shirts'' = Inl (Redirect ''/collections/chemises'')"
  by (simp add: loader_def loadCriticalData_def sampleQuery_def samplePagination_def
      sampleRedirectIfLocalized_def sampleCollection_def)

end
